theory Spec2Isabelle
  imports Main "HOL-Library.Word" "HOL-Library.Sublist"
begin

section \<open>JavaScript values used by App.js\<close>

text \<open>
  A JavaScript string is a sequence of UTF-16 code units. \<open>lit\<close> embeds the
  ASCII literals of the source (\<open>'completed'\<close>, \<open>'pending'\<close>, \<open>''\<close>, ...).
\<close>

type_synonym js_string = "16 word list"

definition lit :: "string \<Rightarrow> js_string" where
  "lit s = map of_char s"

text \<open>
  \<open>String.prototype.trim\<close> is provided by the language, not by App.js. It strips, at
  both ends, the code units that ECMAScript calls WhiteSpace (TAB, VT, FF, SP, NBSP,
  ZWNBSP and the Unicode space separators) or LineTerminator (LF, CR, LS, PS).
\<close>

definition isWhiteSpace :: "16 word \<Rightarrow> bool" where
  "isWhiteSpace c \<longleftrightarrow> c \<in> set
     [0x0009, 0x000A, 0x000B, 0x000C, 0x000D, 0x0020, 0x00A0, 0x1680,
      0x2000, 0x2001, 0x2002, 0x2003, 0x2004, 0x2005, 0x2006, 0x2007,
      0x2008, 0x2009, 0x200A, 0x2028, 0x2029, 0x202F, 0x205F, 0x3000, 0xFEFF]"

definition trim :: "js_string \<Rightarrow> js_string" where
  "trim s = rev (dropWhile isWhiteSpace (rev (dropWhile isWhiteSpace s)))"

text \<open>
  A task as the server returns it: \<open>{id, title, completed}\<close>, the id a number or a
  string. The derived equality on \<open>task_id\<close> is \<open>===\<close>: a number never equals a string.
\<close>

datatype task_id = IdNum int | IdStr js_string

record Task =
  id' :: task_id
  title :: js_string
  completed :: bool

section \<open>Component state\<close>

text \<open>The six \<open>useState\<close> cells of \<open>App\<close>, in the order of the source (lines 12 to 17).\<close>

record app_state =
  tasks :: "Task list"
  task :: js_string
  editId :: "task_id option"
  editedTask :: js_string
  filter' :: js_string
  darkMode :: bool

definition initial_state :: "js_string option \<Rightarrow> app_state" where
  "initial_state systemTheme =
     \<lparr>tasks = [], task = lit '''', editId = None, editedTask = lit '''',
      filter' = lit ''all'', darkMode = (systemTheme = Some (lit ''dark''))\<rparr>"

section \<open>Requests and what fetch answers\<close>

text \<open>
  \<open>API_URL\<close> is the collection endpoint; \<open>API_URL_item id\<close> is the template
  \<open>`${API_URL}${id}/`\<close>. A request body is the object handed to \<open>JSON.stringify\<close>,
  its properties in the order written.
\<close>

datatype url = API_URL | API_URL_item task_id

datatype json = JString js_string | JBool bool

record request =
  http_method :: string
  url :: url
  headers :: "(string \<times> string) list"
  body :: "(string \<times> json) list option"

text \<open>
  \<open>fetch\<close> rejects only when the network fails: \<open>NetworkError\<close>. Otherwise it resolves
  with a response of some HTTP status, whose \<open>json()\<close> either rejects (the body is not
  JSON: \<open>None\<close>) or resolves with the parsed value. App.js never reads the status.
  The parsed value has the shape the interface gives the endpoint: a task for POST and
  PUT, a sequence of tasks for GET; the response to DELETE is never parsed.
\<close>

datatype 'a fetch_result = NetworkError | Response nat "'a option"

text \<open>
  What a handler does besides updating the state: the requests it issues and the
  lines its \<open>catch\<close> block writes with \<open>console.error\<close>.
\<close>

datatype event = Fetch request | ConsoleError string

fun requests :: "event list \<Rightarrow> request list" where
  "requests [] = []"
| "requests (Fetch r # es) = r # requests es"
| "requests (ConsoleError m # es) = requests es"

section \<open>The handlers of App.js\<close>

text \<open>
  Each handler takes the answer of the network to the one request it may issue and
  the state its closure captured, and returns the state after its \<open>set...\<close> calls
  with the events it produced. An early \<open>return\<close> produces no event.
\<close>

definition fetchTasks :: "Task list fetch_result \<Rightarrow> app_state \<Rightarrow> app_state \<times> event list" where
  "fetchTasks answer st =
     (let req = \<lparr>http_method = ''GET'', url = API_URL, headers = [], body = None\<rparr> in
      case answer of
        NetworkError \<Rightarrow> (st, [Fetch req, ConsoleError ''Error fetching tasks:''])
      | Response status None \<Rightarrow> (st, [Fetch req, ConsoleError ''Error fetching tasks:''])
      | Response status (Some data) \<Rightarrow> (st\<lparr>tasks := data\<rparr>, [Fetch req]))"

text \<open>\<open>useEffect(() => { fetchTasks(); }, [])\<close>: the fetch on mount, from the initial state.\<close>

definition mount :: "Task list fetch_result \<Rightarrow> js_string option \<Rightarrow> app_state \<times> event list" where
  "mount answer systemTheme = fetchTasks answer (initial_state systemTheme)"

definition addTask :: "Task fetch_result \<Rightarrow> app_state \<Rightarrow> app_state \<times> event list" where
  "addTask answer st =
     (if trim (task st) = [] then (st, [])
      else
        let req = \<lparr>http_method = ''POST'', url = API_URL,
                   headers = [(''Content-Type'', ''application/json'')],
                   body = Some [(''title'', JString (task st)), (''completed'', JBool False)]\<rparr> in
        case answer of
          NetworkError \<Rightarrow> (st, [Fetch req, ConsoleError ''Error adding task:''])
        | Response status None \<Rightarrow> (st, [Fetch req, ConsoleError ''Error adding task:''])
        | Response status (Some newTask) \<Rightarrow>
            (st\<lparr>tasks := tasks st @ [newTask], task := lit ''''\<rparr>, [Fetch req]))"

text \<open>\<open>removeTask\<close> awaits \<open>fetch\<close> only: the response is neither parsed nor inspected.\<close>

definition removeTask :: "'a fetch_result \<Rightarrow> task_id \<Rightarrow> app_state \<Rightarrow> app_state \<times> event list" where
  "removeTask answer i st =
     (let req = \<lparr>http_method = ''DELETE'', url = API_URL_item i, headers = [], body = None\<rparr> in
      case answer of
        NetworkError \<Rightarrow> (st, [Fetch req, ConsoleError ''Error deleting task:''])
      | Response status b \<Rightarrow>
          (st\<lparr>tasks := filter (\<lambda>t. id' t \<noteq> i) (tasks st)\<rparr>, [Fetch req]))"

definition toggleComplete ::
    "Task fetch_result \<Rightarrow> task_id \<Rightarrow> bool \<Rightarrow> app_state \<Rightarrow> app_state \<times> event list" where
  "toggleComplete answer i completed_arg st =
     (case find (\<lambda>t. id' t = i) (tasks st) of
        None \<Rightarrow> (st, [])
      | Some taskToUpdate \<Rightarrow>
          (let req = \<lparr>http_method = ''PUT'', url = API_URL_item i,
                      headers = [(''Content-Type'', ''application/json'')],
                      body = Some [(''title'', JString (title taskToUpdate)),
                                   (''completed'', JBool (\<not> completed_arg))]\<rparr> in
           (case answer of
              NetworkError \<Rightarrow> (st, [Fetch req, ConsoleError ''Error toggling task:''])
            | Response status None \<Rightarrow> (st, [Fetch req, ConsoleError ''Error toggling task:''])
            | Response status (Some updatedTask) \<Rightarrow>
                (st\<lparr>tasks := map (\<lambda>t. if id' t = i then updatedTask else t) (tasks st)\<rparr>,
                 [Fetch req]))))"

definition saveEdit :: "Task fetch_result \<Rightarrow> task_id \<Rightarrow> app_state \<Rightarrow> app_state \<times> event list" where
  "saveEdit answer i st =
     (if trim (editedTask st) = [] then (st, [])
      else
        let req = \<lparr>http_method = ''PUT'', url = API_URL_item i,
                   headers = [(''Content-Type'', ''application/json'')],
                   body = Some [(''title'', JString (editedTask st))]\<rparr> in
        case answer of
          NetworkError \<Rightarrow> (st, [Fetch req, ConsoleError ''Error editing task:''])
        | Response status None \<Rightarrow> (st, [Fetch req, ConsoleError ''Error editing task:''])
        | Response status (Some updatedTask) \<Rightarrow>
            (st\<lparr>tasks := map (\<lambda>t. if id' t = i then updatedTask else t) (tasks st),
                editId := None, editedTask := lit ''''\<rparr>,
             [Fetch req]))"

text \<open>The list handed to \<open>FlatList\<close>, recomputed from the state at every render.\<close>

definition filteredTasks :: "app_state \<Rightarrow> Task list" where
  "filteredTasks st =
     filter (\<lambda>t. if filter' st = lit ''completed'' then completed t
                 else if filter' st = lit ''pending'' then \<not> completed t
                 else True)
            (tasks st)"

text \<open>
  Two \<open>onPress\<close> closures of a rendered row (lines 140 and 158): the circle icon
  calls \<open>toggleComplete(item.id, item.completed)\<close> with the row's own id and flag, and
  CANCEL calls \<open>setEditId(null)\<close>, nothing else.
\<close>

definition onPress_toggle :: "Task fetch_result \<Rightarrow> Task \<Rightarrow> app_state \<Rightarrow> app_state \<times> event list" where
  "onPress_toggle answer item st = toggleComplete answer (id' item) (completed item) st"

definition onPress_cancel :: "app_state \<Rightarrow> app_state \<times> event list" where
  "onPress_cancel st = (st\<lparr>editId := None\<rparr>, [])"

section \<open>Failure in the words of the specification\<close>

text \<open>
  The specification counts three things as a failed operation: a network error, a body
  that is not JSON, and a status outside 200..299. App.js has no such test; these two
  definitions only state the specification's reading, to compare the handlers with it.
\<close>

definition non_2xx :: "nat \<Rightarrow> bool" where
  "non_2xx status \<longleftrightarrow> \<not> (200 \<le> status \<and> status \<le> 299)"

definition spec_failure :: "'a fetch_result \<Rightarrow> bool" where
  "spec_failure answer =
     (case answer of NetworkError \<Rightarrow> True | Response status b \<Rightarrow> b = None \<or> non_2xx status)"

section \<open>The filter literals\<close>

lemma lit_filter_values:
  "lit ''pending'' \<noteq> lit ''completed''"
  "lit ''all'' \<noteq> lit ''completed''"
  "lit ''all'' \<noteq> lit ''pending''"
  by (simp_all add: lit_def)

section \<open>Lookup and replacement by id\<close>

lemma find_id_None: "find (\<lambda>t. id' t = i) ts = None \<longleftrightarrow> i \<notin> id' ` set ts"
  by (induction ts) auto

lemma find_id_distinct:
  "distinct (map id' ts) \<Longrightarrow> x \<in> set ts \<Longrightarrow> find (\<lambda>t. id' t = id' x) ts = Some x"
  by (induction ts) (auto simp: image_iff)

lemma replace_absent: "i \<notin> id' ` set ts \<Longrightarrow> map (\<lambda>t. if id' t = i then u else t) ts = ts"
  by (induction ts) auto

lemma filteredTasks_subset: "set (filteredTasks st) \<subseteq> set (tasks st)"
  by (simp add: filteredTasks_def)

section \<open>The request each handler issues\<close>

text \<open>Whatever the network answers, the request is the same; only the guard decides on it.\<close>

lemma addTask_requests:
  "requests (snd (addTask answer st))
     = (if trim (task st) = [] then []
        else [\<lparr>http_method = ''POST'', url = API_URL,
               headers = [(''Content-Type'', ''application/json'')],
               body = Some [(''title'', JString (task st)), (''completed'', JBool False)]\<rparr>])"
  by (simp add: addTask_def Let_def split: fetch_result.split option.split)

lemma saveEdit_requests:
  "requests (snd (saveEdit answer i st))
     = (if trim (editedTask st) = [] then []
        else [\<lparr>http_method = ''PUT'', url = API_URL_item i,
               headers = [(''Content-Type'', ''application/json'')],
               body = Some [(''title'', JString (editedTask st))]\<rparr>])"
  by (simp add: saveEdit_def Let_def split: fetch_result.split option.split)

lemma toggleComplete_requests:
  "find (\<lambda>t. id' t = i) (tasks st) = Some t \<Longrightarrow>
   requests (snd (toggleComplete answer i c st))
     = [\<lparr>http_method = ''PUT'', url = API_URL_item i,
         headers = [(''Content-Type'', ''application/json'')],
         body = Some [(''title'', JString (title t)), (''completed'', JBool (\<not> c))]\<rparr>]"
  by (simp add: toggleComplete_def Let_def split: fetch_result.split option.split)

lemma fetchTasks_requests:
  "requests (snd (fetchTasks answer st))
     = [\<lparr>http_method = ''GET'', url = API_URL, headers = [], body = None\<rparr>]"
  by (simp add: fetchTasks_def Let_def split: fetch_result.split option.split)

section \<open>The filter projection\<close>

text \<open>
  Claim C2. For every state (so for every task list and every filter value) the list
  \<open>filteredTasks\<close> is a subsequence of the task list, in its order. Under \<open>'completed'\<close>
  it is exactly the tasks with \<open>completed\<close> true, under \<open>'pending'\<close> exactly those with
  \<open>completed\<close> false, and under \<open>'all'\<close> it is the whole list. It is a function of the
  list and the filter value alone: states that agree on both have the same projection.
\<close>

theorem filteredTasks_projection:
  "subseq (filteredTasks st) (tasks st)
   \<and> (filter' st = lit ''completed'' \<longrightarrow>
        filteredTasks st = filter completed (tasks st)
        \<and> (\<forall>t. t \<in> set (filteredTasks st) \<longleftrightarrow> t \<in> set (tasks st) \<and> completed t))
   \<and> (filter' st = lit ''pending'' \<longrightarrow>
        filteredTasks st = filter (\<lambda>t. \<not> completed t) (tasks st)
        \<and> (\<forall>t. t \<in> set (filteredTasks st) \<longleftrightarrow> t \<in> set (tasks st) \<and> \<not> completed t))
   \<and> (filter' st = lit ''all'' \<longrightarrow> filteredTasks st = tasks st)
   \<and> (\<forall>st'. tasks st' = tasks st \<and> filter' st' = filter' st \<longrightarrow>
         filteredTasks st' = filteredTasks st)"
  by (simp add: filteredTasks_def lit_filter_values)

theorem filteredTasks_projection_witness:
  "filteredTasks ((initial_state None)
      \<lparr>tasks := [\<lparr>id' = IdNum 1, title = lit ''A'', completed = False\<rparr>,
                 \<lparr>id' = IdNum 2, title = lit ''B'', completed = True\<rparr>,
                 \<lparr>id' = IdNum 3, title = lit ''C'', completed = False\<rparr>],
       filter' := lit ''completed''\<rparr>)
     = [\<lparr>id' = IdNum 2, title = lit ''B'', completed = True\<rparr>]
   \<and> filteredTasks ((initial_state None)
      \<lparr>tasks := [\<lparr>id' = IdNum 1, title = lit ''A'', completed = False\<rparr>,
                 \<lparr>id' = IdNum 2, title = lit ''B'', completed = True\<rparr>,
                 \<lparr>id' = IdNum 3, title = lit ''C'', completed = False\<rparr>],
       filter' := lit ''pending''\<rparr>)
     = [\<lparr>id' = IdNum 1, title = lit ''A'', completed = False\<rparr>,
        \<lparr>id' = IdNum 3, title = lit ''C'', completed = False\<rparr>]
   \<and> filteredTasks ((initial_state None)
      \<lparr>tasks := [\<lparr>id' = IdNum 1, title = lit ''A'', completed = False\<rparr>,
                 \<lparr>id' = IdNum 2, title = lit ''B'', completed = True\<rparr>,
                 \<lparr>id' = IdNum 3, title = lit ''C'', completed = False\<rparr>]\<rparr>)
     = [\<lparr>id' = IdNum 1, title = lit ''A'', completed = False\<rparr>,
        \<lparr>id' = IdNum 2, title = lit ''B'', completed = True\<rparr>,
        \<lparr>id' = IdNum 3, title = lit ''C'', completed = False\<rparr>]
   \<and> filteredTasks ((initial_state (Some (lit ''dark'')))
      \<lparr>tasks := [\<lparr>id' = IdNum 1, title = lit ''A'', completed = False\<rparr>,
                 \<lparr>id' = IdNum 2, title = lit ''B'', completed = True\<rparr>,
                 \<lparr>id' = IdNum 3, title = lit ''C'', completed = False\<rparr>],
       task := lit ''Buy milk''\<rparr>)
     = [\<lparr>id' = IdNum 1, title = lit ''A'', completed = False\<rparr>,
        \<lparr>id' = IdNum 2, title = lit ''B'', completed = True\<rparr>,
        \<lparr>id' = IdNum 3, title = lit ''C'', completed = False\<rparr>]"
proof -
  let ?ts = "[\<lparr>id' = IdNum 1, title = lit ''A'', completed = False\<rparr>,
              \<lparr>id' = IdNum 2, title = lit ''B'', completed = True\<rparr>,
              \<lparr>id' = IdNum 3, title = lit ''C'', completed = False\<rparr>]"
  let ?all = "(initial_state None)\<lparr>tasks := ?ts\<rparr>"
  let ?other = "(initial_state (Some (lit ''dark'')))\<lparr>tasks := ?ts, task := lit ''Buy milk''\<rparr>"
  have is_all: "filter' ?all = lit ''all''"
    by (simp add: initial_state_def)
  have agree: "tasks ?other = tasks ?all \<and> filter' ?other = filter' ?all"
    by (simp add: initial_state_def)
  note whole = filteredTasks_projection [of ?all]
  note all_case = whole [THEN conjunct2, THEN conjunct2, THEN conjunct2, THEN conjunct1]
  note same = whole [THEN conjunct2, THEN conjunct2, THEN conjunct2, THEN conjunct2,
      rule_format, OF agree]
  note completed_case = filteredTasks_projection
      [of "(initial_state None)\<lparr>tasks := ?ts, filter' := lit ''completed''\<rparr>",
       THEN conjunct2, THEN conjunct1]
  note pending_case = filteredTasks_projection
      [of "(initial_state None)\<lparr>tasks := ?ts, filter' := lit ''pending''\<rparr>",
       THEN conjunct2, THEN conjunct2, THEN conjunct1]
  show ?thesis
    using is_all all_case same completed_case pending_case
    by simp
qed

section \<open>Add\<close>

text \<open>
  Claim C4. When the pending text trims to the empty string, \<open>addTask\<close> returns at its
  guard: no event at all, hence no request, and the state (list and pending text
  included) is the one it was given. When the trimmed text is not empty and the
  response carries a parsed task, the new list is the old one with that task appended,
  one element longer, the pending text is \<open>''\<close>, nothing else in the state changes,
  and the one request issued is the POST of \<open>{title, completed: false}\<close>.
\<close>

theorem addTask_guard_and_append:
  "(trim (task st) = [] \<longrightarrow> addTask answer st = (st, []))
   \<and> (trim (task st) \<noteq> [] \<longrightarrow>
        tasks (fst (addTask (Response status (Some newTask)) st)) = tasks st @ [newTask]
        \<and> length (tasks (fst (addTask (Response status (Some newTask)) st))) = length (tasks st) + 1
        \<and> task (fst (addTask (Response status (Some newTask)) st)) = lit ''''
        \<and> fst (addTask (Response status (Some newTask)) st)
            = st\<lparr>tasks := tasks st @ [newTask], task := lit ''''\<rparr>
        \<and> requests (snd (addTask (Response status (Some newTask)) st))
            = [\<lparr>http_method = ''POST'', url = API_URL,
                headers = [(''Content-Type'', ''application/json'')],
                body = Some [(''title'', JString (task st)), (''completed'', JBool False)]\<rparr>])"
  by (simp add: addTask_def)

theorem addTask_guard_and_append_witness:
  "trim (lit ''  '') = []
   \<and> addTask (Response 201 (Some \<lparr>id' = IdNum 7, title = lit ''  '', completed = False\<rparr>))
        ((initial_state None)\<lparr>task := lit ''  ''\<rparr>)
      = ((initial_state None)\<lparr>task := lit ''  ''\<rparr>, [])
   \<and> trim (lit ''Buy milk'') \<noteq> []
   \<and> tasks (fst (addTask
        (Response 201 (Some \<lparr>id' = IdNum 7, title = lit ''Buy milk'', completed = False\<rparr>))
        ((initial_state None)
           \<lparr>tasks := [\<lparr>id' = IdNum 1, title = lit ''A'', completed = False\<rparr>],
            task := lit ''Buy milk''\<rparr>)))
      = [\<lparr>id' = IdNum 1, title = lit ''A'', completed = False\<rparr>,
         \<lparr>id' = IdNum 7, title = lit ''Buy milk'', completed = False\<rparr>]
   \<and> task (fst (addTask
        (Response 201 (Some \<lparr>id' = IdNum 7, title = lit ''Buy milk'', completed = False\<rparr>))
        ((initial_state None)
           \<lparr>tasks := [\<lparr>id' = IdNum 1, title = lit ''A'', completed = False\<rparr>],
            task := lit ''Buy milk''\<rparr>)))
      = lit ''''"
proof -
  have blank: "trim (lit ''  '') = []"
    by (simp add: trim_def lit_def isWhiteSpace_def)
  have nonblank: "trim (lit ''Buy milk'') \<noteq> []"
    by (simp add: trim_def lit_def isWhiteSpace_def)
  show ?thesis
    using blank nonblank
      addTask_guard_and_append [of "(initial_state None)\<lparr>task := lit ''  ''\<rparr>"
        "Response 201 (Some \<lparr>id' = IdNum 7, title = lit ''  '', completed = False\<rparr>)"]
      addTask_guard_and_append [of "(initial_state None)
           \<lparr>tasks := [\<lparr>id' = IdNum 1, title = lit ''A'', completed = False\<rparr>],
            task := lit ''Buy milk''\<rparr>" _ 201
            "\<lparr>id' = IdNum 7, title = lit ''Buy milk'', completed = False\<rparr>"]
    by (simp add: initial_state_def)
qed

section \<open>Remove\<close>

text \<open>
  Claim C6, as amended. Once \<open>fetch\<close> has resolved, whatever the status of the
  response, \<open>removeTask\<close> keeps exactly the tasks whose id differs from the one given, in
  their order: the new list is a subsequence of the old one and a task is in it if and
  only if it was in the old list under another id. When \<open>fetch\<close> rejects (a network
  error) the state is the one given, so a list that held the id still holds it.
\<close>

theorem removeTask_filters_by_id:
  "tasks (fst (removeTask (Response status b) i st)) = filter (\<lambda>t. id' t \<noteq> i) (tasks st)
   \<and> subseq (tasks (fst (removeTask (Response status b) i st))) (tasks st)
   \<and> (\<forall>t. t \<in> set (tasks (fst (removeTask (Response status b) i st)))
             \<longleftrightarrow> t \<in> set (tasks st) \<and> id' t \<noteq> i)
   \<and> fst (removeTask (NetworkError :: 'a fetch_result) i st) = st
   \<and> (i \<in> id' ` set (tasks st) \<longrightarrow>
        i \<in> id' ` set (tasks (fst (removeTask (NetworkError :: 'a fetch_result) i st))))"
  for b :: "'a option"
  by (simp add: removeTask_def)

theorem removeTask_filters_by_id_witness:
  "tasks (fst (removeTask (Response 204 (None :: unit option)) (IdNum 1)
      ((initial_state None)
         \<lparr>tasks := [\<lparr>id' = IdNum 1, title = lit ''A'', completed = False\<rparr>,
                    \<lparr>id' = IdNum 2, title = lit ''B'', completed = True\<rparr>]\<rparr>)))
     = [\<lparr>id' = IdNum 2, title = lit ''B'', completed = True\<rparr>]
   \<and> IdNum 1 \<in> id' ` set [\<lparr>id' = IdNum 1, title = lit ''A'', completed = False\<rparr>,
                            \<lparr>id' = IdNum 2, title = lit ''B'', completed = True\<rparr>]
   \<and> tasks (fst (removeTask (NetworkError :: unit fetch_result) (IdNum 1)
      ((initial_state None)
         \<lparr>tasks := [\<lparr>id' = IdNum 1, title = lit ''A'', completed = False\<rparr>,
                    \<lparr>id' = IdNum 2, title = lit ''B'', completed = True\<rparr>]\<rparr>)))
     = [\<lparr>id' = IdNum 1, title = lit ''A'', completed = False\<rparr>,
        \<lparr>id' = IdNum 2, title = lit ''B'', completed = True\<rparr>]"
  using removeTask_filters_by_id [of 204 "None :: unit option" "IdNum 1" "(initial_state None)
         \<lparr>tasks := [\<lparr>id' = IdNum 1, title = lit ''A'', completed = False\<rparr>,
                    \<lparr>id' = IdNum 2, title = lit ''B'', completed = True\<rparr>]\<rparr>"]
  by (simp add: initial_state_def)

text \<open>
  The claim as stated promises an unchanged list on every failure, and the
  specification counts a status outside 200..299 as one. \<open>removeTask\<close> does not read
  the status: a DELETE answered by 500 removes task 1 from the list all the same.
\<close>

theorem removeTask_non_2xx_counterexample:
  "spec_failure (Response 500 (Some ()))
   \<and> IdNum 1 \<in> id' ` set (tasks ((initial_state None)
         \<lparr>tasks := [\<lparr>id' = IdNum 1, title = lit ''A'', completed = False\<rparr>,
                    \<lparr>id' = IdNum 2, title = lit ''B'', completed = True\<rparr>]\<rparr>))
   \<and> tasks (fst (removeTask (Response 500 (Some ())) (IdNum 1)
        ((initial_state None)
           \<lparr>tasks := [\<lparr>id' = IdNum 1, title = lit ''A'', completed = False\<rparr>,
                      \<lparr>id' = IdNum 2, title = lit ''B'', completed = True\<rparr>]\<rparr>)))
      = [\<lparr>id' = IdNum 2, title = lit ''B'', completed = True\<rparr>]
   \<and> tasks (fst (removeTask (Response 500 (Some ())) (IdNum 1)
        ((initial_state None)
           \<lparr>tasks := [\<lparr>id' = IdNum 1, title = lit ''A'', completed = False\<rparr>,
                      \<lparr>id' = IdNum 2, title = lit ''B'', completed = True\<rparr>]\<rparr>)))
      \<noteq> tasks ((initial_state None)
           \<lparr>tasks := [\<lparr>id' = IdNum 1, title = lit ''A'', completed = False\<rparr>,
                      \<lparr>id' = IdNum 2, title = lit ''B'', completed = True\<rparr>]\<rparr>)
   \<and> IdNum 1 \<notin> id' ` set (tasks (fst (removeTask (Response 500 (Some ())) (IdNum 1)
        ((initial_state None)
           \<lparr>tasks := [\<lparr>id' = IdNum 1, title = lit ''A'', completed = False\<rparr>,
                      \<lparr>id' = IdNum 2, title = lit ''B'', completed = True\<rparr>]\<rparr>))))"
  by (simp add: spec_failure_def non_2xx_def removeTask_def initial_state_def)

section \<open>Toggle completion\<close>

text \<open>
  Claim C3. When no task of the list carries the id, \<open>toggleComplete\<close> returns at its
  lookup: no event, hence no request, and the state as given. When the lookup finds a
  task, one request is issued, the PUT to the item's address whose body has the found
  task's title and the negation of the flag the caller passed. The only caller is the
  circle icon of a rendered row, which passes the row's own id and flag; with the ids of
  the list pairwise distinct (the server assigns them, unique) the task found is that
  row, so the body is \<open>{title: its title, completed: not its flag}\<close>. When the response
  carries a parsed task, every task under the id is replaced by it where it stands: the
  rest of the state, the length of the list and every other position are unchanged.
\<close>

theorem toggleComplete_lookup_body_and_replace:
  "(i \<notin> id' ` set (tasks st) \<longrightarrow> toggleComplete answer i c st = (st, []))
   \<and> (\<forall>t. find (\<lambda>t. id' t = i) (tasks st) = Some t \<longrightarrow>
         requests (snd (toggleComplete answer i c st))
           = [\<lparr>http_method = ''PUT'', url = API_URL_item i,
               headers = [(''Content-Type'', ''application/json'')],
               body = Some [(''title'', JString (title t)), (''completed'', JBool (\<not> c))]\<rparr>])
   \<and> (distinct (map id' (tasks st)) \<longrightarrow>
         (\<forall>item \<in> set (filteredTasks st).
            requests (snd (onPress_toggle answer item st))
              = [\<lparr>http_method = ''PUT'', url = API_URL_item (id' item),
                  headers = [(''Content-Type'', ''application/json'')],
                  body = Some [(''title'', JString (title item)),
                               (''completed'', JBool (\<not> completed item))]\<rparr>]))
   \<and> (i \<in> id' ` set (tasks st) \<longrightarrow>
         fst (toggleComplete (Response status (Some updatedTask)) i c st)
           = st\<lparr>tasks := map (\<lambda>t. if id' t = i then updatedTask else t) (tasks st)\<rparr>
         \<and> length (tasks (fst (toggleComplete (Response status (Some updatedTask)) i c st)))
             = length (tasks st)
         \<and> (\<forall>k < length (tasks st).
               tasks (fst (toggleComplete (Response status (Some updatedTask)) i c st)) ! k
                 = (if id' (tasks st ! k) = i then updatedTask else tasks st ! k)))"
proof (intro conjI impI allI ballI)
  assume "i \<notin> id' ` set (tasks st)"
  then have "find (\<lambda>t. id' t = i) (tasks st) = None"
    by (simp add: find_id_None)
  then show "toggleComplete answer i c st = (st, [])"
    by (simp add: toggleComplete_def)
next
  fix t
  assume "find (\<lambda>t. id' t = i) (tasks st) = Some t"
  then show "requests (snd (toggleComplete answer i c st))
           = [\<lparr>http_method = ''PUT'', url = API_URL_item i,
               headers = [(''Content-Type'', ''application/json'')],
               body = Some [(''title'', JString (title t)), (''completed'', JBool (\<not> c))]\<rparr>]"
    by (rule toggleComplete_requests)
next
  fix item
  assume d: "distinct (map id' (tasks st))" and "item \<in> set (filteredTasks st)"
  then have "item \<in> set (tasks st)"
    using filteredTasks_subset by blast
  with d have "find (\<lambda>t. id' t = id' item) (tasks st) = Some item"
    by (rule find_id_distinct)
  then show "requests (snd (onPress_toggle answer item st))
           = [\<lparr>http_method = ''PUT'', url = API_URL_item (id' item),
               headers = [(''Content-Type'', ''application/json'')],
               body = Some [(''title'', JString (title item)),
                            (''completed'', JBool (\<not> completed item))]\<rparr>]"
    by (simp add: onPress_toggle_def toggleComplete_requests)
next
  assume "i \<in> id' ` set (tasks st)"
  then obtain t where f: "find (\<lambda>t. id' t = i) (tasks st) = Some t"
    using find_id_None [of i "tasks st"] by (cases "find (\<lambda>t. id' t = i) (tasks st)") auto
  show "fst (toggleComplete (Response status (Some updatedTask)) i c st)
           = st\<lparr>tasks := map (\<lambda>t. if id' t = i then updatedTask else t) (tasks st)\<rparr>"
    using f by (simp add: toggleComplete_def)
  show "length (tasks (fst (toggleComplete (Response status (Some updatedTask)) i c st)))
             = length (tasks st)"
    using f by (simp add: toggleComplete_def)
  show "\<And>k. k < length (tasks st) \<Longrightarrow>
               tasks (fst (toggleComplete (Response status (Some updatedTask)) i c st)) ! k
                 = (if id' (tasks st ! k) = i then updatedTask else tasks st ! k)"
    using f by (simp add: toggleComplete_def)
qed

theorem toggleComplete_lookup_body_and_replace_witness:
  "toggleComplete (Response 200 (Some \<lparr>id' = IdNum 2, title = lit ''B'', completed = True\<rparr>))
      (IdNum 2) False
      ((initial_state None)\<lparr>tasks := [\<lparr>id' = IdNum 1, title = lit ''A'', completed = False\<rparr>]\<rparr>)
     = ((initial_state None)\<lparr>tasks := [\<lparr>id' = IdNum 1, title = lit ''A'', completed = False\<rparr>]\<rparr>, [])
   \<and> requests (snd (onPress_toggle
        (Response 200 (Some \<lparr>id' = IdNum 1, title = lit ''A'', completed = True\<rparr>))
        \<lparr>id' = IdNum 1, title = lit ''A'', completed = False\<rparr>
        ((initial_state None)\<lparr>tasks := [\<lparr>id' = IdNum 1, title = lit ''A'', completed = False\<rparr>]\<rparr>)))
     = [\<lparr>http_method = ''PUT'', url = API_URL_item (IdNum 1),
         headers = [(''Content-Type'', ''application/json'')],
         body = Some [(''title'', JString (lit ''A'')), (''completed'', JBool True)]\<rparr>]
   \<and> tasks (fst (toggleComplete
        (Response 200 (Some \<lparr>id' = IdNum 1, title = lit ''A'', completed = True\<rparr>))
        (IdNum 1) False
        ((initial_state None)\<lparr>tasks := [\<lparr>id' = IdNum 1, title = lit ''A'', completed = False\<rparr>]\<rparr>)))
     = [\<lparr>id' = IdNum 1, title = lit ''A'', completed = True\<rparr>]"
proof -
  let ?A = "\<lparr>id' = IdNum 1, title = lit ''A'', completed = False\<rparr>"
  let ?A' = "\<lparr>id' = IdNum 1, title = lit ''A'', completed = True\<rparr>"
  let ?B = "\<lparr>id' = IdNum 2, title = lit ''B'', completed = True\<rparr>"
  let ?st = "(initial_state None)\<lparr>tasks := [?A]\<rparr>"
  have absent: "IdNum 2 \<notin> id' ` set (tasks ?st)"
    by simp
  have present: "IdNum 1 \<in> id' ` set (tasks ?st)"
    by simp
  have found: "find (\<lambda>t. id' t = IdNum 1) (tasks ?st) = Some ?A"
    by simp
  have unique: "distinct (map id' (tasks ?st))"
    by simp
  have shown: "?A \<in> set (filteredTasks ?st)"
    by (simp add: filteredTasks_def initial_state_def lit_filter_values)
  note noop = toggleComplete_lookup_body_and_replace
      [of "IdNum 2" ?st "Response 200 (Some ?B)" False, THEN conjunct1, rule_format, OF absent]
  note rest = toggleComplete_lookup_body_and_replace
      [of "IdNum 1" ?st "Response 200 (Some ?A')" False 200 ?A', THEN conjunct2]
  note by_lookup = rest [THEN conjunct1, rule_format, OF found]
  note pressed = rest [THEN conjunct2, THEN conjunct1, rule_format, OF unique shown]
  note replaced = rest [THEN conjunct2, THEN conjunct2, rule_format, OF present]
  show ?thesis
    using noop by_lookup pressed replaced by simp
qed

section \<open>Save an edit\<close>

text \<open>
  Claim C5. When the edit text trims to the empty string, \<open>saveEdit\<close> returns at its
  guard: no event, no request, the state as given. Otherwise it issues one request, the
  PUT to the item's address with body \<open>{title: editedTask}\<close>, in which no property is
  named \<open>completed\<close>; and when the response carries a parsed task, every task under the
  given id is replaced by it where it stands (same length, every position either the
  response or the task that was there), the edit target becomes \<open>null\<close> and the edit text
  \<open>''\<close>. This holds for every state, in particular for those with an active edit.
\<close>

theorem saveEdit_guard_body_and_replace:
  "(trim (editedTask st) = [] \<longrightarrow> saveEdit answer i st = (st, []))
   \<and> (trim (editedTask st) \<noteq> [] \<longrightarrow>
        requests (snd (saveEdit answer i st))
          = [\<lparr>http_method = ''PUT'', url = API_URL_item i,
              headers = [(''Content-Type'', ''application/json'')],
              body = Some [(''title'', JString (editedTask st))]\<rparr>]
        \<and> (\<forall>r \<in> set (requests (snd (saveEdit answer i st))).
              \<forall>b. body r = Some b \<longrightarrow> map_of b ''completed'' = None)
        \<and> fst (saveEdit (Response status (Some updatedTask)) i st)
            = st\<lparr>tasks := map (\<lambda>t. if id' t = i then updatedTask else t) (tasks st),
                 editId := None, editedTask := lit ''''\<rparr>
        \<and> length (tasks (fst (saveEdit (Response status (Some updatedTask)) i st)))
            = length (tasks st)
        \<and> (\<forall>k < length (tasks st).
              tasks (fst (saveEdit (Response status (Some updatedTask)) i st)) ! k
                = (if id' (tasks st ! k) = i then updatedTask else tasks st ! k))
        \<and> editId (fst (saveEdit (Response status (Some updatedTask)) i st)) = None
        \<and> editedTask (fst (saveEdit (Response status (Some updatedTask)) i st)) = lit '''')"
  by (simp add: saveEdit_requests) (simp add: saveEdit_def)

theorem saveEdit_guard_body_and_replace_witness:
  "trim (lit '' '') = []
   \<and> saveEdit (Response 200 (Some \<lparr>id' = IdNum 1, title = lit '' '', completed = False\<rparr>))
        (IdNum 1)
        ((initial_state None)
           \<lparr>tasks := [\<lparr>id' = IdNum 1, title = lit ''A'', completed = False\<rparr>],
            editId := Some (IdNum 1), editedTask := lit '' ''\<rparr>)
      = ((initial_state None)
           \<lparr>tasks := [\<lparr>id' = IdNum 1, title = lit ''A'', completed = False\<rparr>],
            editId := Some (IdNum 1), editedTask := lit '' ''\<rparr>, [])
   \<and> trim (lit ''A2'') \<noteq> []
   \<and> requests (snd (saveEdit
        (Response 200 (Some \<lparr>id' = IdNum 1, title = lit ''A2'', completed = False\<rparr>))
        (IdNum 1)
        ((initial_state None)
           \<lparr>tasks := [\<lparr>id' = IdNum 1, title = lit ''A'', completed = False\<rparr>],
            editId := Some (IdNum 1), editedTask := lit ''A2''\<rparr>)))
      = [\<lparr>http_method = ''PUT'', url = API_URL_item (IdNum 1),
          headers = [(''Content-Type'', ''application/json'')],
          body = Some [(''title'', JString (lit ''A2''))]\<rparr>]
   \<and> fst (saveEdit
        (Response 200 (Some \<lparr>id' = IdNum 1, title = lit ''A2'', completed = False\<rparr>))
        (IdNum 1)
        ((initial_state None)
           \<lparr>tasks := [\<lparr>id' = IdNum 1, title = lit ''A'', completed = False\<rparr>],
            editId := Some (IdNum 1), editedTask := lit ''A2''\<rparr>))
      = (initial_state None)
           \<lparr>tasks := [\<lparr>id' = IdNum 1, title = lit ''A2'', completed = False\<rparr>],
            editId := None, editedTask := lit ''''\<rparr>"
proof -
  let ?A = "\<lparr>id' = IdNum 1, title = lit ''A'', completed = False\<rparr>"
  let ?A2 = "\<lparr>id' = IdNum 1, title = lit ''A2'', completed = False\<rparr>"
  let ?blank = "(initial_state None)\<lparr>tasks := [?A], editId := Some (IdNum 1), editedTask := lit '' ''\<rparr>"
  let ?edit = "(initial_state None)\<lparr>tasks := [?A], editId := Some (IdNum 1), editedTask := lit ''A2''\<rparr>"
  have blank: "trim (lit '' '') = []"
    by (simp add: trim_def lit_def isWhiteSpace_def)
  have nonblank: "trim (lit ''A2'') \<noteq> []"
    by (simp add: trim_def lit_def isWhiteSpace_def)
  show ?thesis
    using blank nonblank
      saveEdit_guard_body_and_replace [of ?blank
        "Response 200 (Some \<lparr>id' = IdNum 1, title = lit '' '', completed = False\<rparr>)" "IdNum 1"]
      saveEdit_guard_body_and_replace [of ?edit "Response 200 (Some ?A2)" "IdNum 1" 200 ?A2]
    by (simp add: initial_state_def)
qed

text \<open>
  Claim C9. The guards test the trimmed text, the bodies carry the text as it is in
  the state: whenever the guard lets the call through, the \<open>title\<close> of the create body
  is the pending text and the \<open>title\<close> of the edit body is the edit text, untrimmed.
\<close>

theorem untrimmed_text_is_sent:
  "(trim (task st) \<noteq> [] \<longrightarrow>
      map body (requests (snd (addTask answer st)))
        = [Some [(''title'', JString (task st)), (''completed'', JBool False)]])
   \<and> (trim (editedTask st) \<noteq> [] \<longrightarrow>
      map body (requests (snd (saveEdit answer' i st)))
        = [Some [(''title'', JString (editedTask st))]])"
  by (simp add: addTask_requests saveEdit_requests)

theorem untrimmed_text_is_sent_witness:
  "trim (lit ''  Buy milk '') = lit ''Buy milk''
   \<and> lit ''  Buy milk '' \<noteq> lit ''Buy milk''
   \<and> map body (requests (snd (addTask NetworkError
        ((initial_state None)\<lparr>task := lit ''  Buy milk ''\<rparr>))))
      = [Some [(''title'', JString (lit ''  Buy milk '')), (''completed'', JBool False)]]
   \<and> map body (requests (snd (saveEdit NetworkError (IdNum 1)
        ((initial_state None)\<lparr>editId := Some (IdNum 1), editedTask := lit ''  Buy milk ''\<rparr>))))
      = [Some [(''title'', JString (lit ''  Buy milk ''))]]"
proof -
  have trimmed: "trim (lit ''  Buy milk '') = lit ''Buy milk''"
    by (simp add: trim_def lit_def isWhiteSpace_def)
  have differs: "lit ''  Buy milk '' \<noteq> lit ''Buy milk''"
    by (simp add: lit_def)
  have nonblank: "lit ''Buy milk'' \<noteq> []"
    by (simp add: lit_def)
  show ?thesis
    using trimmed differs nonblank
      untrimmed_text_is_sent
        [of "(initial_state None)\<lparr>task := lit ''  Buy milk ''\<rparr>" NetworkError, THEN conjunct1]
      untrimmed_text_is_sent
        [of "(initial_state None)\<lparr>editId := Some (IdNum 1), editedTask := lit ''  Buy milk ''\<rparr>"
            _ NetworkError "IdNum 1", THEN conjunct2]
    by simp
qed

text \<open>
  Claim C10. \<open>saveEdit\<close> never looks the id up. For an id that no task of the list
  carries (and an edit text that passes the guard) it still issues the PUT; when the
  response carries a parsed task the edit target and the edit text are cleared and the
  list is the one it was, since the replacement matches nothing. \<open>toggleComplete\<close> on
  the same id returns at its lookup, with no event and the state as given.
\<close>

theorem saveEdit_absent_id:
  "i \<notin> id' ` set (tasks st) \<Longrightarrow> trim (editedTask st) \<noteq> [] \<Longrightarrow>
     requests (snd (saveEdit answer i st))
       = [\<lparr>http_method = ''PUT'', url = API_URL_item i,
           headers = [(''Content-Type'', ''application/json'')],
           body = Some [(''title'', JString (editedTask st))]\<rparr>]
     \<and> fst (saveEdit (Response status (Some updatedTask)) i st)
         = st\<lparr>editId := None, editedTask := lit ''''\<rparr>
     \<and> tasks (fst (saveEdit (Response status (Some updatedTask)) i st)) = tasks st
     \<and> toggleComplete answer i c st = (st, [])"
  using find_id_None [of i "tasks st"]
  by (simp add: saveEdit_requests) (simp add: saveEdit_def toggleComplete_def replace_absent)

theorem saveEdit_absent_id_witness:
  "IdNum 9 \<notin> id' ` set [\<lparr>id' = IdNum 1, title = lit ''A'', completed = False\<rparr>]
   \<and> trim (lit ''X'') \<noteq> []
   \<and> saveEdit (Response 200 (Some \<lparr>id' = IdNum 9, title = lit ''X'', completed = False\<rparr>))
        (IdNum 9)
        ((initial_state None)
           \<lparr>tasks := [\<lparr>id' = IdNum 1, title = lit ''A'', completed = False\<rparr>],
            editId := Some (IdNum 9), editedTask := lit ''X''\<rparr>)
      = ((initial_state None)
           \<lparr>tasks := [\<lparr>id' = IdNum 1, title = lit ''A'', completed = False\<rparr>],
            editId := None, editedTask := lit ''''\<rparr>,
         [Fetch \<lparr>http_method = ''PUT'', url = API_URL_item (IdNum 9),
                 headers = [(''Content-Type'', ''application/json'')],
                 body = Some [(''title'', JString (lit ''X''))]\<rparr>])
   \<and> toggleComplete (Response 200 (Some \<lparr>id' = IdNum 9, title = lit ''X'', completed = False\<rparr>))
        (IdNum 9) False
        ((initial_state None)
           \<lparr>tasks := [\<lparr>id' = IdNum 1, title = lit ''A'', completed = False\<rparr>],
            editId := Some (IdNum 9), editedTask := lit ''X''\<rparr>)
      = ((initial_state None)
           \<lparr>tasks := [\<lparr>id' = IdNum 1, title = lit ''A'', completed = False\<rparr>],
            editId := Some (IdNum 9), editedTask := lit ''X''\<rparr>, [])"
proof -
  let ?A = "\<lparr>id' = IdNum 1, title = lit ''A'', completed = False\<rparr>"
  let ?X = "\<lparr>id' = IdNum 9, title = lit ''X'', completed = False\<rparr>"
  let ?st = "(initial_state None)\<lparr>tasks := [?A], editId := Some (IdNum 9), editedTask := lit ''X''\<rparr>"
  have absent: "IdNum 9 \<notin> id' ` set (tasks ?st)"
    by simp
  have nonblank: "trim (editedTask ?st) \<noteq> []"
    by (simp add: trim_def lit_def isWhiteSpace_def)
  have events: "snd (saveEdit (Response 200 (Some ?X)) (IdNum 9) ?st)
                  = map Fetch (requests (snd (saveEdit (Response 200 (Some ?X)) (IdNum 9) ?st)))"
    using nonblank by (simp add: saveEdit_def)
  show ?thesis
    using absent nonblank events
      saveEdit_absent_id [OF absent nonblank, of "Response 200 (Some ?X)" 200 ?X False]
    by (simp add: prod_eq_iff)
qed

section \<open>Cancel an edit\<close>

text \<open>
  Claim C7. The CANCEL closure calls \<open>setEditId(null)\<close> and nothing else: it issues no
  request and leaves the list alone, but the edit text is not cleared. On the state
  with task 1 under edit and edit text \<open>'A2'\<close>, the edit target becomes \<open>null\<close> and the
  edit text is still \<open>'A2'\<close>, where the success path of \<open>saveEdit\<close> resets both.
\<close>

theorem onPress_cancel_keeps_edit_text:
  "onPress_cancel ((initial_state None)
       \<lparr>tasks := [\<lparr>id' = IdNum 1, title = lit ''A'', completed = False\<rparr>],
        editId := Some (IdNum 1), editedTask := lit ''A2''\<rparr>)
     = ((initial_state None)
       \<lparr>tasks := [\<lparr>id' = IdNum 1, title = lit ''A'', completed = False\<rparr>],
        editId := None, editedTask := lit ''A2''\<rparr>, [])
   \<and> editedTask (fst (onPress_cancel ((initial_state None)
       \<lparr>tasks := [\<lparr>id' = IdNum 1, title = lit ''A'', completed = False\<rparr>],
        editId := Some (IdNum 1), editedTask := lit ''A2''\<rparr>))) \<noteq> lit ''''"
  by (simp add: onPress_cancel_def lit_def)

section \<open>Calls that fail\<close>

text \<open>
  Claim C1, as amended. A handler's \<open>catch\<close> block runs when \<open>fetch\<close> rejects (a
  network error) and, in the handlers that parse the response (create, toggle, edit),
  when the body is not JSON. In these cases the whole state, so the task list, the
  pending text, the edit target and the edit text, is the one before the call.
\<close>

theorem rejected_call_leaves_state:
  "fst (addTask NetworkError st) = st
   \<and> fst (addTask (Response status None) st) = st
   \<and> fst (toggleComplete NetworkError i c st) = st
   \<and> fst (toggleComplete (Response status None) i c st) = st
   \<and> fst (saveEdit NetworkError i st) = st
   \<and> fst (saveEdit (Response status None) i st) = st
   \<and> fst (removeTask (NetworkError :: 'a fetch_result) i st) = st"
  by (simp add: addTask_def toggleComplete_def saveEdit_def removeTask_def split: option.splits)

theorem rejected_call_leaves_state_witness:
  "fst (addTask (Response 200 None)
      ((initial_state None)
         \<lparr>tasks := [\<lparr>id' = IdNum 1, title = lit ''A'', completed = False\<rparr>],
          task := lit ''Buy milk'', editId := Some (IdNum 1), editedTask := lit ''A2''\<rparr>))
     = (initial_state None)
         \<lparr>tasks := [\<lparr>id' = IdNum 1, title = lit ''A'', completed = False\<rparr>],
          task := lit ''Buy milk'', editId := Some (IdNum 1), editedTask := lit ''A2''\<rparr>
   \<and> fst (toggleComplete NetworkError (IdNum 1) False
      ((initial_state None)
         \<lparr>tasks := [\<lparr>id' = IdNum 1, title = lit ''A'', completed = False\<rparr>],
          task := lit ''Buy milk'', editId := Some (IdNum 1), editedTask := lit ''A2''\<rparr>))
     = (initial_state None)
         \<lparr>tasks := [\<lparr>id' = IdNum 1, title = lit ''A'', completed = False\<rparr>],
          task := lit ''Buy milk'', editId := Some (IdNum 1), editedTask := lit ''A2''\<rparr>
   \<and> fst (saveEdit (Response 200 None) (IdNum 1)
      ((initial_state None)
         \<lparr>tasks := [\<lparr>id' = IdNum 1, title = lit ''A'', completed = False\<rparr>],
          task := lit ''Buy milk'', editId := Some (IdNum 1), editedTask := lit ''A2''\<rparr>))
     = (initial_state None)
         \<lparr>tasks := [\<lparr>id' = IdNum 1, title = lit ''A'', completed = False\<rparr>],
          task := lit ''Buy milk'', editId := Some (IdNum 1), editedTask := lit ''A2''\<rparr>
   \<and> fst (removeTask (NetworkError :: unit fetch_result) (IdNum 1)
      ((initial_state None)
         \<lparr>tasks := [\<lparr>id' = IdNum 1, title = lit ''A'', completed = False\<rparr>],
          task := lit ''Buy milk'', editId := Some (IdNum 1), editedTask := lit ''A2''\<rparr>))
     = (initial_state None)
         \<lparr>tasks := [\<lparr>id' = IdNum 1, title = lit ''A'', completed = False\<rparr>],
          task := lit ''Buy milk'', editId := Some (IdNum 1), editedTask := lit ''A2''\<rparr>"
  using rejected_call_leaves_state [where ?'a = unit, of "(initial_state None)
         \<lparr>tasks := [\<lparr>id' = IdNum 1, title = lit ''A'', completed = False\<rparr>],
          task := lit ''Buy milk'', editId := Some (IdNum 1), editedTask := lit ''A2''\<rparr>"
       200 "IdNum 1" False]
  by simp

text \<open>
  The claim as stated also counts a status outside 200..299, and for delete a body
  that is not JSON, as failures that leave the state alone. No handler reads the status
  and \<open>removeTask\<close> does not parse the body: a DELETE answered by 500, or by 204 with an
  empty body, removes the task; a POST answered by 500 with a task as body appends it
  and clears the pending text; a PUT answered by 500 with a task as body replaces.
\<close>

theorem status_is_never_read_counterexample:
  "spec_failure (Response 500 (None :: unit option))
   \<and> tasks (fst (removeTask (Response 500 (None :: unit option)) (IdNum 1)
        ((initial_state None)
           \<lparr>tasks := [\<lparr>id' = IdNum 1, title = lit ''A'', completed = False\<rparr>]\<rparr>)))
      \<noteq> tasks ((initial_state None)
           \<lparr>tasks := [\<lparr>id' = IdNum 1, title = lit ''A'', completed = False\<rparr>]\<rparr>)
   \<and> spec_failure (Response 204 (None :: unit option))
   \<and> tasks (fst (removeTask (Response 204 (None :: unit option)) (IdNum 1)
        ((initial_state None)
           \<lparr>tasks := [\<lparr>id' = IdNum 1, title = lit ''A'', completed = False\<rparr>]\<rparr>)))
      \<noteq> tasks ((initial_state None)
           \<lparr>tasks := [\<lparr>id' = IdNum 1, title = lit ''A'', completed = False\<rparr>]\<rparr>)
   \<and> spec_failure (Response 500 (Some \<lparr>id' = IdNum 7, title = lit ''Buy milk'', completed = False\<rparr>))
   \<and> fst (addTask (Response 500 (Some \<lparr>id' = IdNum 7, title = lit ''Buy milk'', completed = False\<rparr>))
        ((initial_state None)\<lparr>task := lit ''Buy milk''\<rparr>))
      = (initial_state None)
          \<lparr>tasks := [\<lparr>id' = IdNum 7, title = lit ''Buy milk'', completed = False\<rparr>]\<rparr>
   \<and> fst (addTask (Response 500 (Some \<lparr>id' = IdNum 7, title = lit ''Buy milk'', completed = False\<rparr>))
        ((initial_state None)\<lparr>task := lit ''Buy milk''\<rparr>))
      \<noteq> (initial_state None)\<lparr>task := lit ''Buy milk''\<rparr>
   \<and> spec_failure (Response 500 (Some \<lparr>id' = IdNum 1, title = lit ''A'', completed = True\<rparr>))
   \<and> tasks (fst (toggleComplete
        (Response 500 (Some \<lparr>id' = IdNum 1, title = lit ''A'', completed = True\<rparr>))
        (IdNum 1) False
        ((initial_state None)
           \<lparr>tasks := [\<lparr>id' = IdNum 1, title = lit ''A'', completed = False\<rparr>]\<rparr>)))
      \<noteq> tasks ((initial_state None)
           \<lparr>tasks := [\<lparr>id' = IdNum 1, title = lit ''A'', completed = False\<rparr>]\<rparr>)"
  by (simp add: spec_failure_def non_2xx_def removeTask_def addTask_def toggleComplete_def
        initial_state_def trim_def lit_def isWhiteSpace_def)

section \<open>The initial fetch\<close>

text \<open>
  Claim C8, as amended. \<open>fetchTasks\<close> issues the GET of the collection and, when the
  body parses, stores the sequence as the server sent it, in its order, whatever the
  status; nothing else in the state changes. When \<open>fetch\<close> rejects or the body is not
  JSON the state is the one before the call, so the fetch on mount leaves the list empty.
\<close>

theorem fetchTasks_stores_parsed_body:
  "tasks (fst (fetchTasks (Response status (Some data)) st)) = data
   \<and> fst (fetchTasks (Response status (Some data)) st) = st\<lparr>tasks := data\<rparr>
   \<and> fst (fetchTasks NetworkError st) = st
   \<and> fst (fetchTasks (Response status None) st) = st
   \<and> tasks (fst (mount NetworkError systemTheme)) = []
   \<and> tasks (fst (mount (Response status None) systemTheme)) = []
   \<and> requests (snd (fetchTasks answer st))
       = [\<lparr>http_method = ''GET'', url = API_URL, headers = [], body = None\<rparr>]"
  by (simp add: fetchTasks_requests) (simp add: fetchTasks_def mount_def initial_state_def)

theorem fetchTasks_stores_parsed_body_witness:
  "tasks (fst (fetchTasks
      (Response 200 (Some [\<lparr>id' = IdNum 2, title = lit ''B'', completed = True\<rparr>,
                          \<lparr>id' = IdNum 1, title = lit ''A'', completed = False\<rparr>]))
      (initial_state None)))
     = [\<lparr>id' = IdNum 2, title = lit ''B'', completed = True\<rparr>,
        \<lparr>id' = IdNum 1, title = lit ''A'', completed = False\<rparr>]
   \<and> tasks (fst (mount NetworkError None)) = []
   \<and> tasks (fst (mount (Response 200 None) None)) = []"
  using fetchTasks_stores_parsed_body [of 200
      "[\<lparr>id' = IdNum 2, title = lit ''B'', completed = True\<rparr>,
        \<lparr>id' = IdNum 1, title = lit ''A'', completed = False\<rparr>]" "initial_state None" None]
  by simp

text \<open>
  The claim as stated also promises an unchanged list for a status outside 200..299.
  A response of status 500 whose body is a JSON array is stored like any other: on
  mount the list is then not empty.
\<close>

theorem fetchTasks_non_2xx_counterexample:
  "spec_failure (Response 500 (Some [\<lparr>id' = IdNum 1, title = lit ''A'', completed = False\<rparr>]))
   \<and> tasks (fst (mount
        (Response 500 (Some [\<lparr>id' = IdNum 1, title = lit ''A'', completed = False\<rparr>])) None))
      = [\<lparr>id' = IdNum 1, title = lit ''A'', completed = False\<rparr>]
   \<and> tasks (fst (mount
        (Response 500 (Some [\<lparr>id' = IdNum 1, title = lit ''A'', completed = False\<rparr>])) None))
      \<noteq> tasks (initial_state None)
   \<and> tasks (initial_state None) = []"
  by (simp add: spec_failure_def non_2xx_def mount_def fetchTasks_def initial_state_def)

end
